theory Spec2Isabelle
  imports Complex_Main "HOL-Library.Word" "HOL-Library.AList"
begin

section \<open>JavaScript primitives used by the extension\<close>

text \<open>
  Strings are lists of characters. The three string methods the scripts call are
  \<^verbatim>\<open>String.prototype.includes\<close>, \<^verbatim>\<open>String.prototype.replace\<close> with a
  string pattern (which replaces the first occurrence only) and
  \<^verbatim>\<open>String.prototype.padStart\<close>.
\<close>

fun startsWith :: "string \<Rightarrow> string \<Rightarrow> bool" where
  "startsWith s [] = True"
| "startsWith [] (p # ps) = False"
| "startsWith (c # cs) (p # ps) = (c = p \<and> startsWith cs ps)"

fun "includes" :: "string \<Rightarrow> string \<Rightarrow> bool" where
  "includes [] sub = (sub = [])"
| "includes (c # cs) sub = (startsWith (c # cs) sub \<or> includes cs sub)"

fun replace :: "string \<Rightarrow> string \<Rightarrow> string \<Rightarrow> string" where
  "replace [] pat rep = (if pat = [] then rep else [])"
| "replace (c # cs) pat rep =
     (if startsWith (c # cs) pat then rep @ drop (length pat) (c # cs)
      else c # replace cs pat rep)"

definition padStart :: "string \<Rightarrow> nat \<Rightarrow> char \<Rightarrow> string" where
  "padStart s n c = replicate (n - length s) c @ s"

text \<open>
  Errors are values. \<open>Error m\<close> is an error the scripts throw themselves with
  \<^verbatim>\<open>throw new Error(m)\<close>; \<open>PlatformError m\<close> is an exception or a rejected
  promise of a browser interface (URL parsing, geolocation, Web Crypto, fetch, message
  passing). The scripts only ever read the \<^verbatim>\<open>message\<close> of an error.
\<close>

datatype error = Error string | PlatformError string

fun message :: "error \<Rightarrow> string" where
  "message (Error m) = m"
| "message (PlatformError m) = m"

text \<open>
  The numbers that reach \<^verbatim>\<open>Math.max\<close> and \<^verbatim>\<open>Math.min\<close>: integer
  timestamps, the two infinities (the results on an empty argument list) and NaN, which
  is what \<^verbatim>\<open>undefined\<close> converts to. A property that an object does not
  have reads as \<^verbatim>\<open>undefined\<close>, modelled by \<open>None\<close>.
\<close>

datatype jsnum = NaN | NegInf | Num int | PosInf

fun toNumber :: "int option \<Rightarrow> jsnum" where
  "toNumber None = NaN"
| "toNumber (Some i) = Num i"

fun max2 :: "jsnum \<Rightarrow> jsnum \<Rightarrow> jsnum" where
  "max2 NaN b = NaN"
| "max2 a NaN = NaN"
| "max2 PosInf b = PosInf"
| "max2 a PosInf = PosInf"
| "max2 NegInf b = b"
| "max2 a NegInf = a"
| "max2 (Num a) (Num b) = Num (max a b)"

fun min2 :: "jsnum \<Rightarrow> jsnum \<Rightarrow> jsnum" where
  "min2 NaN b = NaN"
| "min2 a NaN = NaN"
| "min2 NegInf b = NegInf"
| "min2 a NegInf = NegInf"
| "min2 PosInf b = b"
| "min2 a PosInf = a"
| "min2 (Num a) (Num b) = Num (min a b)"

definition Math_max :: "int option list \<Rightarrow> jsnum" where
  "Math_max xs = foldl max2 NegInf (map toNumber xs)"

definition Math_min :: "int option list \<Rightarrow> jsnum" where
  "Math_min xs = foldl min2 PosInf (map toNumber xs)"

fun minus_num :: "jsnum \<Rightarrow> jsnum \<Rightarrow> jsnum" where
  "minus_num NaN b = NaN"
| "minus_num a NaN = NaN"
| "minus_num (Num a) (Num b) = Num (a - b)"
| "minus_num PosInf PosInf = NaN"
| "minus_num NegInf NegInf = NaN"
| "minus_num PosInf b = PosInf"
| "minus_num NegInf b = NegInf"
| "minus_num (Num a) PosInf = NegInf"
| "minus_num (Num a) NegInf = PosInf"

fun less_num :: "jsnum \<Rightarrow> int \<Rightarrow> bool" where
  "less_num NaN n = False"
| "less_num NegInf n = True"
| "less_num (Num a) n = (a < n)"
| "less_num PosInf n = False"

section \<open>JSON serialisation\<close>

text \<open>
  The values \<^verbatim>\<open>JSON.stringify\<close> is applied to. An object is the list of its
  properties in insertion order, which is the order the serialiser writes them in.
  Numbers are rationals; their decimal rendering is the platform function
  \<open>number_toString\<close>.
\<close>

datatype json =
    JNull
  | JBool bool
  | JNum rat
  | JStr string
  | JArr "json list"
  | JObj "(string \<times> json) list"

text \<open>The digit of a value below 16; it is applied to no other value.\<close>

definition hex_digit :: "nat \<Rightarrow> char" where
  "hex_digit d = ''0123456789abcdef'' ! d"

function toString16 :: "nat \<Rightarrow> string" where
  "toString16 n = (if n < 16 then [hex_digit n] else toString16 (n div 16) @ [hex_digit (n mod 16)])"
  by pat_completeness auto
termination
  by (relation "measure id") auto

declare toString16.simps [simp del]

definition quote_char :: "char \<Rightarrow> string" where
  "quote_char c =
     (if c = CHR 0x22 then [CHR 0x5C, CHR 0x22]
      else if c = CHR 0x5C then [CHR 0x5C, CHR 0x5C]
      else if c = CHR 0x08 then [CHR 0x5C, CHR ''b'']
      else if c = CHR 0x09 then [CHR 0x5C, CHR ''t'']
      else if c = CHR 0x0A then [CHR 0x5C, CHR ''n'']
      else if c = CHR 0x0C then [CHR 0x5C, CHR ''f'']
      else if c = CHR 0x0D then [CHR 0x5C, CHR ''r'']
      else if (of_char c :: nat) < 32
        then [CHR 0x5C, CHR ''u''] @ padStart (toString16 (of_char c)) 4 CHR ''0''
      else [c])"

definition quote :: "string \<Rightarrow> string" where
  "quote s = [CHR 0x22] @ concat (map quote_char s) @ [CHR 0x22]"

fun join :: "string list \<Rightarrow> string \<Rightarrow> string" where
  "join [] sep = []"
| "join [x] sep = x"
| "join (x # y # ys) sep = x @ sep @ join (y # ys) sep"

fun JSON_stringify :: "(rat \<Rightarrow> string) \<Rightarrow> json \<Rightarrow> string" where
  "JSON_stringify ns JNull = ''null''"
| "JSON_stringify ns (JBool b) = (if b then ''true'' else ''false'')"
| "JSON_stringify ns (JNum r) = ns r"
| "JSON_stringify ns (JStr s) = quote s"
| "JSON_stringify ns (JArr xs) = ''['' @ join (map (JSON_stringify ns) xs) '','' @ '']''"
| "JSON_stringify ns (JObj kvs) =
     ''{'' @ join (map (\<lambda>(k, v). quote k @ '':'' @ JSON_stringify ns v) kvs) '','' @ ''}''"

text \<open>
  Bytes are 8-bit words. A string is taken to hold its UTF-8 bytes, so
  \<^verbatim>\<open>TextEncoder.encode\<close> reads each character as one byte.
\<close>

type_synonym byte = "8 word"

definition encode :: "string \<Rightarrow> byte list" where
  "encode s = map (\<lambda>c. word_of_nat (of_char c)) s"

text \<open>
  \<^verbatim>\<open>Array.from(bytes).map(b => b.toString(16).padStart(2, '0')).join('')\<close>
\<close>

definition hex :: "byte list \<Rightarrow> string" where
  "hex bs = join (map (\<lambda>b. padStart (toString16 (unat b)) 2 CHR ''0'') bs) []"

section \<open>The browser platform\<close>

text \<open>
  The interfaces of the browser that the scripts call and that are no part of the
  repository are parameters of the model: the host name of a URL
  (\<^verbatim>\<open>new URL(u).hostname\<close>, which throws on a string that is no URL), the decimal
  rendering of a number, the SHA-256 digest, ECDSA signing, the raw export of a key, and
  the outcome of the HTTP POST to the issuance endpoint.
\<close>

record zkp_token =
  token :: "string option"
  consistencyScore :: rat

datatype fetch_result =
    NetworkError error
  | HttpResponse bool "error + zkp_token"

record 'k platform =
  url_hostname :: "string \<Rightarrow> error + string"
  number_toString :: "rat \<Rightarrow> string"
  sha256 :: "byte list \<Rightarrow> byte list"
  ecdsa_sign :: "'k \<Rightarrow> byte list \<Rightarrow> error + byte list"
  export_raw :: "'k \<Rightarrow> error + byte list"
  http_post :: "string \<Rightarrow> string \<Rightarrow> fetch_result"

record 'k key_pair =
  publicKey :: 'k
  privateKey :: 'k

section \<open>The background service worker\<close>

subsection \<open>Site registry\<close>

definition API_ENDPOINTS :: "(string \<times> string) list" where
  "API_ENDPOINTS =
     [(''walmart.com'', ''https://api.walmart.com/secure-context''),
      (''amazon.com'', ''https://api.amazon.com/secure-context''),
      (''target.com'', ''https://api.target.com/secure-context''),
      (''bestbuy.com'', ''https://api.bestbuy.com/secure-context''),
      (''ebay.com'', ''https://api.ebay.com/secure-context''),
      (''costco.com'', ''https://api.costco.com/secure-context'')]"

text \<open>
  \<^verbatim>\<open>getApiEndpoint\<close>: the first key of the table that the host name (with its
  first \<^verbatim>\<open>www.\<close> removed) contains, and that key's endpoint; \<open>None\<close> is
  \<^verbatim>\<open>null\<close>.
\<close>

definition getApiEndpoint :: "('k, 'x) platform_scheme \<Rightarrow> string \<Rightarrow> error + string option" where
  "getApiEndpoint P url =
     (case url_hostname P url of
        Inl e \<Rightarrow> Inl e
      | Inr hostname \<Rightarrow>
          (let domain = replace hostname ''www.'' [] in
           case find (\<lambda>site. includes domain site) (map fst API_ENDPOINTS) of
             None \<Rightarrow> Inr None
           | Some site \<Rightarrow> Inr (map_of API_ENDPOINTS site)))"

subsection \<open>Context snapshot\<close>

text \<open>
  The objects the collector builds. The location object of \<^verbatim>\<open>getGeolocationData\<close>
  has the properties \<^verbatim>\<open>lat\<close>, \<^verbatim>\<open>lng\<close> and \<^verbatim>\<open>accuracy\<close>; the scorer
  also reads its \<^verbatim>\<open>timestamp\<close>, so the record carries that property as an
  option, \<open>None\<close> when the object does not have it.
\<close>

record location_data =
  lat :: rat
  lng :: rat
  accuracy :: rat
  location_timestamp :: "int option"

record wifi_data =
  nearby_networks :: "json list"
  connection_strength :: rat
  wifi_timestamp :: int

text \<open>
  The acceleration \<^verbatim>\<open>{x, y, z}\<close> and the rotation \<^verbatim>\<open>{alpha, beta, gamma}\<close> are
  triples of numbers; \<open>c1\<close>, \<open>c2\<close> and \<open>c3\<close> are their components in that order.
\<close>

record vector3 =
  c1 :: rat
  c2 :: rat
  c3 :: rat

record motion_data =
  acceleration :: vector3
  rotation :: vector3
  motion_timestamp :: int

record pos_data =
  terminal_id :: "string option"
  signal_strength :: rat
  pos_timestamp :: int

record context_data =
  location :: location_data
  wifi_fingerprint :: wifi_data
  motion_signature :: motion_data
  pos_terminal :: pos_data
  timestamp :: int

record coords =
  latitude :: rat
  longitude :: rat
  coords_accuracy :: rat

text \<open>
  The four readings of \<^verbatim>\<open>Date.now()\<close> during one collection, in the order the
  calls are made.
\<close>

record clock =
  now_wifi :: int
  now_motion :: int
  now_pos :: int
  now_collected :: int

definition getGeolocationData :: "error + coords \<Rightarrow> error + location_data" where
  "getGeolocationData position =
     (case position of
        Inl e \<Rightarrow> Inl e
      | Inr c \<Rightarrow> Inr \<lparr>lat = latitude c, lng = longitude c, accuracy = coords_accuracy c,
                       location_timestamp = None\<rparr>)"

definition getWiFiData :: "int \<Rightarrow> wifi_data" where
  "getWiFiData now = \<lparr>nearby_networks = [], connection_strength = 0, wifi_timestamp = now\<rparr>"

definition getMotionSignature :: "int \<Rightarrow> motion_data" where
  "getMotionSignature now =
     \<lparr>acceleration = \<lparr>c1 = 0, c2 = 0, c3 = 0\<rparr>, rotation = \<lparr>c1 = 0, c2 = 0, c3 = 0\<rparr>,
      motion_timestamp = now\<rparr>"

definition getPOSTerminalBeacon :: "int \<Rightarrow> pos_data" where
  "getPOSTerminalBeacon now = \<lparr>terminal_id = None, signal_strength = 0, pos_timestamp = now\<rparr>"

subsection \<open>Consistency scorer\<close>

text \<open>
  Scores are rationals. The scorer adds the values 1 and 1/2 and divides by 4, which
  floating-point arithmetic does exactly, and everything else the scripts do with a score
  is to compare it.
\<close>

definition evaluateLocationConsistency :: "location_data \<Rightarrow> rat" where
  "evaluateLocationConsistency loc = (if accuracy loc \<le> 20 then 1 else 1 / 2)"

definition evaluateTemporalConsistency :: "context_data \<Rightarrow> rat" where
  "evaluateTemporalConsistency contextData =
     (let timestamps =
            [Some (timestamp contextData),
             location_timestamp (location contextData),
             Some (wifi_timestamp (wifi_fingerprint contextData)),
             Some (motion_timestamp (motion_signature contextData))];
          maxDiff = minus_num (Math_max timestamps) (Math_min timestamps)
      in if less_num maxDiff 5000 then 1 else 1 / 2)"

definition evaluateMotionConsistency :: "motion_data \<Rightarrow> rat" where
  "evaluateMotionConsistency motionData = 1"

definition evaluateNetworkConsistency :: "wifi_data \<Rightarrow> rat" where
  "evaluateNetworkConsistency wifiData = 1"

text \<open>
  \<^verbatim>\<open>Object.values(scores).reduce((a, b) => a + b, 0) / Object.keys(scores).length\<close>
\<close>

definition computeConsistencyScore :: "context_data \<Rightarrow> rat" where
  "computeConsistencyScore contextData =
     (let scores =
            [evaluateLocationConsistency (location contextData),
             evaluateTemporalConsistency contextData,
             evaluateMotionConsistency (motion_signature contextData),
             evaluateNetworkConsistency (wifi_fingerprint contextData)]
      in foldl (\<lambda>a b. a + b) 0 scores / of_nat (length scores))"

subsection \<open>Context hasher\<close>

text \<open>
  \<^verbatim>\<open>generateContextHash\<close> serialises its argument with \<^verbatim>\<open>JSON.stringify\<close>,
  encodes the string, digests the bytes and writes the digest in hexadecimal. It is
  applied to the snapshot object; \<open>context_json\<close> is that object, its properties in
  the order of the object literals that build it. A property that is
  \<^verbatim>\<open>undefined\<close> is left out by the serialiser.
\<close>

definition generateContextHash :: "('k, 'x) platform_scheme \<Rightarrow> json \<Rightarrow> string" where
  "generateContextHash P contextData =
     (let contextString = JSON_stringify (number_toString P) contextData;
          data = encode contextString;
          hashArray = sha256 P data
      in hex hashArray)"

definition vector_json :: "string \<Rightarrow> string \<Rightarrow> string \<Rightarrow> vector3 \<Rightarrow> json" where
  "vector_json k1 k2 k3 v = JObj [(k1, JNum (c1 v)), (k2, JNum (c2 v)), (k3, JNum (c3 v))]"

definition location_json :: "location_data \<Rightarrow> json" where
  "location_json loc =
     JObj ([(''lat'', JNum (lat loc)), (''lng'', JNum (lng loc)),
            (''accuracy'', JNum (accuracy loc))] @
           (case location_timestamp loc of
              None \<Rightarrow> []
            | Some t \<Rightarrow> [(''timestamp'', JNum (of_int t))]))"

definition wifi_json :: "wifi_data \<Rightarrow> json" where
  "wifi_json w =
     JObj [(''nearby_networks'', JArr (nearby_networks w)),
           (''connection_strength'', JNum (connection_strength w)),
           (''timestamp'', JNum (of_int (wifi_timestamp w)))]"

definition motion_json :: "motion_data \<Rightarrow> json" where
  "motion_json m =
     JObj [(''acceleration'', vector_json ''x'' ''y'' ''z'' (acceleration m)),
           (''rotation'', vector_json ''alpha'' ''beta'' ''gamma'' (rotation m)),
           (''timestamp'', JNum (of_int (motion_timestamp m)))]"

definition pos_json :: "pos_data \<Rightarrow> json" where
  "pos_json p =
     JObj [(''terminal_id'', (case terminal_id p of None \<Rightarrow> JNull | Some i \<Rightarrow> JStr i)),
           (''signal_strength'', JNum (signal_strength p)),
           (''timestamp'', JNum (of_int (pos_timestamp p)))]"

definition context_json :: "context_data \<Rightarrow> json" where
  "context_json contextData =
     JObj [(''location'', location_json (location contextData)),
           (''wifi_fingerprint'', wifi_json (wifi_fingerprint contextData)),
           (''motion_signature'', motion_json (motion_signature contextData)),
           (''pos_terminal'', pos_json (pos_terminal contextData)),
           (''timestamp'', JNum (of_int (timestamp contextData)))]"

subsection \<open>Context collector\<close>

text \<open>
  \<^verbatim>\<open>collectContextData\<close>: of the four sources only the geolocation can fail, and
  its failure is the failure of the collection. The result is the snapshot, its hash and
  its consistency score.
\<close>

definition collectContextData ::
  "('k, 'x) platform_scheme \<Rightarrow> error + coords \<Rightarrow> clock \<Rightarrow> error + (context_data \<times> string \<times> rat)" where
  "collectContextData P position clk =
     (case getGeolocationData position of
        Inl e \<Rightarrow> Inl e
      | Inr loc \<Rightarrow>
          (let contextData =
                 \<lparr>location = loc,
                  wifi_fingerprint = getWiFiData (now_wifi clk),
                  motion_signature = getMotionSignature (now_motion clk),
                  pos_terminal = getPOSTerminalBeacon (now_pos clk),
                  timestamp = now_collected clk\<rparr>;
               contextHash = generateContextHash P (context_json contextData);
               consistencyScore = computeConsistencyScore contextData
           in Inr (contextData, contextHash, consistencyScore)))"

subsection \<open>Token issuance\<close>

definition signData :: "('k, 'x) platform_scheme \<Rightarrow> string \<Rightarrow> 'k \<Rightarrow> error + string" where
  "signData P data key =
     (case ecdsa_sign P key (encode data) of
        Inl e \<Rightarrow> Inl e
      | Inr signature \<Rightarrow> Inr (hex signature))"

definition exportPublicKey :: "('k, 'x) platform_scheme \<Rightarrow> 'k \<Rightarrow> error + string" where
  "exportPublicKey P key =
     (case export_raw P key of
        Inl e \<Rightarrow> Inl e
      | Inr exported \<Rightarrow> Inr (hex exported))"

text \<open>
  \<^verbatim>\<open>requestZKPToken\<close>. \<open>deviceKeyPair\<close> is the global of that name, \<open>None\<close>
  while it is \<^verbatim>\<open>null\<close>. Every \<^verbatim>\<open>throw\<close> and every rejected promise is an
  \<open>Inl\<close> result.
\<close>

definition requestZKPToken ::
  "('k, 'x) platform_scheme \<Rightarrow> 'k key_pair option \<Rightarrow> string \<Rightarrow> rat \<Rightarrow> string \<Rightarrow> error + zkp_token" where
  "requestZKPToken P deviceKeyPair contextHash score siteUrl =
     (case deviceKeyPair of
        None \<Rightarrow> Inl (Error ''Device key pair not initialized'')
      | Some kp \<Rightarrow>
          (case getApiEndpoint P siteUrl of
             Inl e \<Rightarrow> Inl e
           | Inr None \<Rightarrow> Inl (Error ''Unsupported shopping site'')
           | Inr (Some apiEndpoint) \<Rightarrow>
               (case signData P contextHash (privateKey kp) of
                  Inl e \<Rightarrow> Inl e
                | Inr signature \<Rightarrow>
                    (case exportPublicKey P (publicKey kp) of
                       Inl e \<Rightarrow> Inl e
                     | Inr pk \<Rightarrow>
                         (case http_post P (apiEndpoint @ ''/issue-token'')
                                 (JSON_stringify (number_toString P)
                                    (JObj [(''contextHash'', JStr contextHash),
                                           (''signature'', JStr signature),
                                           (''consistencyScore'', JNum score),
                                           (''publicKey'', JStr pk)])) of
                            NetworkError e \<Rightarrow> Inl e
                          | HttpResponse ok body \<Rightarrow>
                              if \<not> ok then Inl (Error ''Failed to obtain ZKP token'')
                              else body)))))"

subsection \<open>The VERIFY_CONTEXT message\<close>

text \<open>
  The response sent back to the content script: \<^verbatim>\<open>{success: true, token}\<close> or
  \<^verbatim>\<open>{success: false, error}\<close>.
\<close>

datatype response = Success zkp_token | Failure string

definition onVerifyContext ::
  "('k, 'x) platform_scheme \<Rightarrow> 'k key_pair option \<Rightarrow> error + coords \<Rightarrow> clock \<Rightarrow> string \<Rightarrow> response" where
  "onVerifyContext P deviceKeyPair position clk siteUrl =
     (case collectContextData P position clk of
        Inl e \<Rightarrow> Failure (message e)
      | Inr (contextData, contextHash, score) \<Rightarrow>
          (case requestZKPToken P deviceKeyPair contextHash score siteUrl of
             Inr tok \<Rightarrow> Success tok
           | Inl e \<Rightarrow>
               if message e = ''Unsupported shopping site''
               then Success \<lparr>token = None, consistencyScore = 0\<rparr>
               else Failure (message e)))"

section \<open>The content script\<close>

subsection \<open>Site registry\<close>

record site_config =
  apiPattern :: string
  storePattern :: string

definition SUPPORTED_SITES :: "(string \<times> site_config) list" where
  "SUPPORTED_SITES =
     [(''walmart.com'', \<lparr>apiPattern = ''api.walmart.com'', storePattern = ''/store/''\<rparr>),
      (''amazon.com'', \<lparr>apiPattern = ''api.amazon.com'', storePattern = ''/dp/''\<rparr>),
      (''target.com'', \<lparr>apiPattern = ''api.target.com'', storePattern = ''/p/''\<rparr>),
      (''bestbuy.com'', \<lparr>apiPattern = ''api.bestbuy.com'', storePattern = ''/products/''\<rparr>),
      (''ebay.com'', \<lparr>apiPattern = ''api.ebay.com'', storePattern = ''/itm/''\<rparr>),
      (''costco.com'', \<lparr>apiPattern = ''api.costco.com'', storePattern = ''/product/''\<rparr>)]"

text \<open>
  \<^verbatim>\<open>getCurrentSite\<close>; its argument is \<^verbatim>\<open>window.location.hostname\<close>.
\<close>

definition getCurrentSite :: "string \<Rightarrow> (string \<times> site_config) option" where
  "getCurrentSite hostname =
     (let currentDomain = replace hostname ''www.'' [] in
      find (\<lambda>entry. includes currentDomain (fst entry)) SUPPORTED_SITES)"

subsection \<open>Verification loop\<close>

text \<open>
  The state of the content script: its three globals, the interval timers that are live
  in the browser, the identifier the next \<^verbatim>\<open>setInterval\<close> returns, the number of
  \<^verbatim>\<open>VERIFY_CONTEXT\<close> requests sent and not yet settled, the page's
  \<^verbatim>\<open>window.secureContextToken\<close>, and the events dispatched to the page, oldest
  first.
\<close>

datatype page_event =
    TokenUpdated zkp_token rat
  | StatusChanged string rat
  | VerificationFailed string rat

record content_state =
  activeToken :: "zkp_token option"
  verificationInterval :: "nat option"
  timers :: "nat list"
  nextTimer :: nat
  pending :: nat
  secureContextToken :: "zkp_token option"
  dispatched :: "page_event list"

definition consistencyThreshold :: rat where
  "consistencyThreshold = 7 / 10"

definition initial_state :: content_state where
  "initial_state =
     \<lparr>activeToken = None, verificationInterval = None, timers = [], nextTimer = 1,
      pending = 0, secureContextToken = None, dispatched = []\<rparr>"

definition injectTokenToPage :: "zkp_token \<Rightarrow> content_state \<Rightarrow> content_state" where
  "injectTokenToPage tok st =
     st\<lparr>secureContextToken := Some tok,
        dispatched := dispatched st @ [TokenUpdated tok (consistencyScore tok)]\<rparr>"

text \<open>The second argument is \<open>None\<close> when the caller passes no score (default 0).\<close>

definition notifyPageContextStatus :: "string \<Rightarrow> rat option \<Rightarrow> content_state \<Rightarrow> content_state" where
  "notifyPageContextStatus status score st =
     (let consistencyScore = (case score of None \<Rightarrow> 0 | Some s \<Rightarrow> s)
      in st\<lparr>dispatched := dispatched st @ [StatusChanged status consistencyScore]\<rparr>)"

text \<open>
  \<^verbatim>\<open>handleVerificationFailure\<close>: the reason is chosen by the truthiness of the
  score, and a number is truthy when it is not zero.
\<close>

definition handleVerificationFailure :: "rat option \<Rightarrow> content_state \<Rightarrow> content_state" where
  "handleVerificationFailure score st =
     (let consistencyScore = (case score of None \<Rightarrow> 0 | Some s \<Rightarrow> s);
          reason = (if consistencyScore \<noteq> 0 then ''Insufficient consistency score''
                    else ''Verification error'')
      in st\<lparr>activeToken := None, secureContextToken := None,
            dispatched := dispatched st @ [VerificationFailed reason consistencyScore]\<rparr>)"

text \<open>
  \<^verbatim>\<open>verifyContext\<close> is asynchronous: it sends the message and returns
  (\<open>verifyContext\<close>), and the rest of its body runs when the message promise settles
  (\<open>verifyContext_settled\<close>), with the answer of the background worker or with the
  error the promise was rejected with.
\<close>

datatype outcome = Answered response | Rejected error

definition verifyContext :: "content_state \<Rightarrow> content_state" where
  "verifyContext st = st\<lparr>pending := pending st + 1\<rparr>"

definition verifyContext_settled :: "outcome \<Rightarrow> content_state \<Rightarrow> content_state" where
  "verifyContext_settled out st =
     (case out of
        Answered (Success tok) \<Rightarrow>
          if consistencyScore tok \<ge> consistencyThreshold
          then notifyPageContextStatus ''active'' (Some (consistencyScore tok))
                 (injectTokenToPage tok (st\<lparr>activeToken := Some tok\<rparr>))
          else handleVerificationFailure (Some (consistencyScore tok)) st
      | Answered (Failure err) \<Rightarrow> handleVerificationFailure None st
      | Rejected e \<Rightarrow> handleVerificationFailure None st)"

definition clearInterval :: "nat \<Rightarrow> content_state \<Rightarrow> content_state" where
  "clearInterval i st = st\<lparr>timers := removeAll i (timers st)\<rparr>"

definition startContextVerification :: "content_state \<Rightarrow> content_state" where
  "startContextVerification st =
     (let st1 = (case verificationInterval st of
                   None \<Rightarrow> st
                 | Some i \<Rightarrow> clearInterval i st);
          st2 = verifyContext st1
      in st2\<lparr>verificationInterval := Some (nextTimer st2),
             timers := timers st2 @ [nextTimer st2],
             nextTimer := nextTimer st2 + 1\<rparr>)"

definition stopContextVerification :: "content_state \<Rightarrow> content_state" where
  "stopContextVerification st =
     (let st1 = (case verificationInterval st of
                   None \<Rightarrow> st
                 | Some i \<Rightarrow> (clearInterval i st)\<lparr>verificationInterval := None\<rparr>)
      in notifyPageContextStatus ''inactive'' None (st1\<lparr>activeToken := None\<rparr>))"

text \<open>
  What can happen to the content script: a \<^verbatim>\<open>NAVIGATION_CHANGE\<close> message, the
  firing of an interval timer (only a live timer fires), and the settling of a request
  in flight (only when there is one).
\<close>

datatype action = NavigationChange bool | Tick nat | Settle outcome

fun step :: "content_state \<Rightarrow> action \<Rightarrow> content_state" where
  "step st (NavigationChange inStore) =
     (if inStore then startContextVerification st else stopContextVerification st)"
| "step st (Tick i) = (if i \<in> set (timers st) then verifyContext st else st)"
| "step st (Settle out) =
     (if pending st = 0 then st
      else verifyContext_settled out (st\<lparr>pending := pending st - 1\<rparr>))"

definition run :: "content_state \<Rightarrow> action list \<Rightarrow> content_state" where
  "run st acts = foldl step st acts"

text \<open>
  The last statement of the script: verification starts at load time on a store page of
  a supported site.
\<close>

definition content_script_loaded :: "string \<Rightarrow> string \<Rightarrow> content_state" where
  "content_script_loaded hostname href =
     (case getCurrentSite hostname of
        None \<Rightarrow> initial_state
      | Some currentSite \<Rightarrow>
          if includes href (storePattern (snd currentSite))
          then startContextVerification initial_state
          else initial_state)"

subsection \<open>Request interceptor\<close>

text \<open>
  The replacement of \<^verbatim>\<open>window.fetch\<close>. The model gives the arguments the original
  \<open>fetch\<close> is called with: the URL (a string) and the options object, \<open>None\<close> when
  the caller passed none. Of the options object only \<open>headers\<close> is read; a header's
  value is a string or \<^verbatim>\<open>null\<close>. Assigning to a property of an object replaces
  the value of an existing property where it stands and appends a new one, which is
  \<^const>\<open>AList.update\<close>.
\<close>

type_synonym header_list = "(string \<times> string option) list"

record request_init =
  headers :: "header_list option"
  other_options :: "(string \<times> json) list"

definition fetch_arguments ::
  "('k, 'x) platform_scheme \<Rightarrow> string \<Rightarrow> zkp_token option \<Rightarrow> string \<times> request_init option
     \<Rightarrow> string \<times> request_init option" where
  "fetch_arguments P hostname active args =
     (case getCurrentSite hostname of
        None \<Rightarrow> args
      | Some currentSite \<Rightarrow>
          if includes (fst args) (apiPattern (snd currentSite)) then
            (let request0 = (case snd args of
                               None \<Rightarrow> \<lparr>headers = None, other_options = []\<rparr>
                             | Some r \<Rightarrow> r);
                 hs0 = (case headers request0 of None \<Rightarrow> [] | Some h \<Rightarrow> h);
                 hs = (case active of
                         None \<Rightarrow> hs0
                       | Some tok \<Rightarrow>
                           AList.update ''X-Shopping-Site'' (Some (fst currentSite))
                             (AList.update ''X-Context-Consistency-Score''
                                (Some (number_toString P (consistencyScore tok)))
                                (AList.update ''X-Secure-Context-Token'' (token tok) hs0)))
             in (fst args, Some (request0\<lparr>headers := Some hs\<rparr>)))
          else args)"

section \<open>Notions used to state the properties\<close>

text \<open>
  Two objects have the same properties when they hold the same keys with the same
  values, in whatever order the properties were inserted.
\<close>

definition same_properties :: "json \<Rightarrow> json \<Rightarrow> bool" where
  "same_properties a b =
     (case (a, b) of
        (JObj xs, JObj ys) \<Rightarrow>
          distinct (map fst xs) \<and> distinct (map fst ys) \<and> set xs = set ys
      | _ \<Rightarrow> a = b)"

text \<open>
  The content script keeps at most one interval timer alive, the one whose identifier
  is in \<open>verificationInterval\<close>.
\<close>

definition timer_invariant :: "content_state \<Rightarrow> bool" where
  "timer_invariant st =
     (timers st = (case verificationInterval st of None \<Rightarrow> [] | Some i \<Rightarrow> [i]))"

fun is_navigation :: "action \<Rightarrow> bool" where
  "is_navigation (NavigationChange inStore) = True"
| "is_navigation (Tick i) = False"
| "is_navigation (Settle out) = False"

text \<open>
  The headers and the other options of the second argument of \<open>fetch\<close>; an absent
  argument and an absent \<open>headers\<close> property hold none.
\<close>

definition headers_of :: "request_init option \<Rightarrow> header_list" where
  "headers_of init =
     (case init of
        None \<Rightarrow> []
      | Some r \<Rightarrow> (case headers r of None \<Rightarrow> [] | Some h \<Rightarrow> h))"

definition options_of :: "request_init option \<Rightarrow> (string \<times> json) list" where
  "options_of init = (case init of None \<Rightarrow> [] | Some r \<Rightarrow> other_options r)"

section \<open>An example platform and example inputs\<close>

text \<open>
  Concrete values at which the properties below are evaluated. The example platform
  reads the host name of a URL of the form \<^verbatim>\<open>scheme://host/...\<close>, writes numbers in
  decimal, and answers every issuance request with the same token. Its digest returns
  the bytes it is given: it stands in for SHA-256 where two digests are compared, and
  tells apart exactly the byte strings that differ.
\<close>

fun after_scheme :: "string \<Rightarrow> string option" where
  "after_scheme [] = None"
| "after_scheme (c # cs) =
     (if startsWith (c # cs) ''://'' then Some (drop 3 (c # cs)) else after_scheme cs)"

definition example_hostname :: "string \<Rightarrow> error + string" where
  "example_hostname url =
     (case after_scheme url of
        None \<Rightarrow> Inl (PlatformError ''Invalid URL'')
      | Some rest \<Rightarrow> Inr (takeWhile (\<lambda>c. c \<notin> set ''/?#:'') rest))"

function nat_decimal :: "nat \<Rightarrow> string" where
  "nat_decimal n =
     (if n < 10 then [hex_digit n] else nat_decimal (n div 10) @ [hex_digit (n mod 10)])"
  by pat_completeness auto
termination
  by (relation "measure id") auto

declare nat_decimal.simps [simp del]

fun fraction_digits :: "nat \<Rightarrow> rat \<Rightarrow> string" where
  "fraction_digits 0 f = []"
| "fraction_digits (Suc n) f =
     (if f = 0 then []
      else hex_digit (nat \<lfloor>f * 10\<rfloor>) # fraction_digits n (f * 10 - of_int \<lfloor>f * 10\<rfloor>))"

definition decimal :: "rat \<Rightarrow> string" where
  "decimal r =
     (let a = \<bar>r\<bar>; f = a - of_int \<lfloor>a\<rfloor>
      in (if r < 0 then ''-'' else []) @ nat_decimal (nat \<lfloor>a\<rfloor>) @
         (if f = 0 then [] else ''.'' @ fraction_digits 20 f))"

definition token09 :: zkp_token where
  "token09 = \<lparr>token = Some ''tok'', consistencyScore = 9 / 10\<rparr>"

definition example_platform :: "string platform" where
  "example_platform =
     \<lparr>url_hostname = example_hostname,
      number_toString = decimal,
      sha256 = (\<lambda>bytes. bytes),
      ecdsa_sign = (\<lambda>key bytes. Inr bytes),
      export_raw = (\<lambda>key. Inr (encode key)),
      http_post = (\<lambda>url body. HttpResponse True (Inr token09))\<rparr>"

definition kp0 :: "string key_pair" where
  "kp0 = \<lparr>publicKey = ''pub'', privateKey = ''priv''\<rparr>"

definition c10 :: coords where
  "c10 = \<lparr>latitude = 36, longitude = - 94, coords_accuracy = 10\<rparr>"

definition clk0 :: clock where
  "clk0 = \<lparr>now_wifi = 1000, now_motion = 1000, now_pos = 1001, now_collected = 1002\<rparr>"

definition clock_aligned :: clock where
  "clock_aligned = \<lparr>now_wifi = 1000, now_motion = 1000, now_pos = 1000, now_collected = 1000\<rparr>"

text \<open>
  The snapshot collected from \<open>c10\<close> at \<open>clk0\<close>, the one collected at
  \<open>clock_aligned\<close>, and an object with the properties of the first, the last one
  inserted first.
\<close>

definition snapshot0 :: context_data where
  "snapshot0 =
     \<lparr>location = \<lparr>lat = 36, lng = - 94, accuracy = 10, location_timestamp = None\<rparr>,
      wifi_fingerprint = getWiFiData 1000,
      motion_signature = getMotionSignature 1000,
      pos_terminal = getPOSTerminalBeacon 1001,
      timestamp = 1002\<rparr>"

definition snapshot_aligned :: context_data where
  "snapshot_aligned =
     \<lparr>location = \<lparr>lat = 36, lng = - 94, accuracy = 10, location_timestamp = None\<rparr>,
      wifi_fingerprint = getWiFiData 1000,
      motion_signature = getMotionSignature 1000,
      pos_terminal = getPOSTerminalBeacon 1000,
      timestamp = 1000\<rparr>"

definition snapshot0_reordered :: json where
  "snapshot0_reordered =
     JObj [(''timestamp'', JNum 1002),
           (''location'', location_json (location snapshot0)),
           (''wifi_fingerprint'', wifi_json (wifi_fingerprint snapshot0)),
           (''motion_signature'', motion_json (motion_signature snapshot0)),
           (''pos_terminal'', pos_json (pos_terminal snapshot0))]"

definition orders_url :: string where
  "orders_url = ''https://api.walmart.com/secure-context/orders''"

definition unrelated_url :: string where
  "unrelated_url = ''https://example.com/unrelated''"

section \<open>Properties of the consistency scorer\<close>

lemma score_mean:
  "computeConsistencyScore c =
     (evaluateLocationConsistency (location c) + evaluateTemporalConsistency c
      + evaluateMotionConsistency (motion_signature c)
      + evaluateNetworkConsistency (wifi_fingerprint c)) / 4"
  by (simp add: computeConsistencyScore_def Let_def)

lemma Math_max_undefined: "Math_max [a, None, b, c] = NaN"
  by (cases a) (simp_all add: Math_max_def)

lemma Math_min_undefined: "Math_min [a, None, b, c] = NaN"
  by (cases a) (simp_all add: Math_min_def)

lemma Math_max_defined:
  "Math_max [Some a, Some b, Some c, Some d] = Num (max (max (max a b) c) d)"
  by (simp add: Math_max_def)

lemma Math_min_defined:
  "Math_min [Some a, Some b, Some c, Some d] = Num (min (min (min a b) c) d)"
  by (simp add: Math_min_def)

text \<open>
  Without a timestamp on the location the spread of the timestamps is NaN, and the
  comparison with 5000 is false.
\<close>

lemma temporal_no_location_timestamp:
  "location_timestamp (location cd) = None \<Longrightarrow> evaluateTemporalConsistency cd = 1 / 2"
  by (simp add: evaluateTemporalConsistency_def Let_def Math_max_undefined Math_min_undefined)

text \<open>
  On a snapshot whose location does carry a timestamp the evaluator compares the spread
  of the four timestamps it reads (the beacon's is not among them) with 5000.
\<close>

lemma temporal_with_location_timestamp:
  "location_timestamp (location cd) = Some t \<Longrightarrow>
   evaluateTemporalConsistency cd =
     (if max (max (max (timestamp cd) t) (wifi_timestamp (wifi_fingerprint cd)))
             (motion_timestamp (motion_signature cd))
         - min (min (min (timestamp cd) t) (wifi_timestamp (wifi_fingerprint cd)))
               (motion_timestamp (motion_signature cd)) < 5000
      then 1 else 1 / 2)"
  by (simp add: evaluateTemporalConsistency_def Let_def Math_max_defined Math_min_defined)

lemma collectContextData_Inl: "collectContextData P (Inl e) clk = Inl e"
  by (simp add: collectContextData_def getGeolocationData_def)

lemma collectContextData_Inr:
  "collectContextData P (Inr c) clk =
     Inr (\<lparr>location = \<lparr>lat = latitude c, lng = longitude c, accuracy = coords_accuracy c,
                         location_timestamp = None\<rparr>,
           wifi_fingerprint = getWiFiData (now_wifi clk),
           motion_signature = getMotionSignature (now_motion clk),
           pos_terminal = getPOSTerminalBeacon (now_pos clk),
           timestamp = now_collected clk\<rparr>,
          generateContextHash P (context_json
            \<lparr>location = \<lparr>lat = latitude c, lng = longitude c, accuracy = coords_accuracy c,
                         location_timestamp = None\<rparr>,
             wifi_fingerprint = getWiFiData (now_wifi clk),
             motion_signature = getMotionSignature (now_motion clk),
             pos_terminal = getPOSTerminalBeacon (now_pos clk),
             timestamp = now_collected clk\<rparr>),
          computeConsistencyScore
            \<lparr>location = \<lparr>lat = latitude c, lng = longitude c, accuracy = coords_accuracy c,
                         location_timestamp = None\<rparr>,
             wifi_fingerprint = getWiFiData (now_wifi clk),
             motion_signature = getMotionSignature (now_motion clk),
             pos_terminal = getPOSTerminalBeacon (now_pos clk),
             timestamp = now_collected clk\<rparr>)"
  by (simp add: collectContextData_def getGeolocationData_def Let_def)

lemma collected_snapshot:
  assumes "collectContextData P position clk = Inr (contextData, contextHash, score)"
  shows "location_timestamp (location contextData) = None"
    and "score = computeConsistencyScore contextData"
proof -
  obtain c where c: "position = Inr c"
    using assms by (cases position) (simp_all add: collectContextData_Inl)
  from assms show "location_timestamp (location contextData) = None"
    unfolding c collectContextData_Inr by auto
  from assms show "score = computeConsistencyScore contextData"
    unfolding c collectContextData_Inr by auto
qed

lemma snapshot0_collected:
  "collectContextData P (Inr c10) clk0
     = Inr (snapshot0, generateContextHash P (context_json snapshot0),
            computeConsistencyScore snapshot0)"
  by (simp add: collectContextData_Inr c10_def clk0_def snapshot0_def)

lemma snapshot_aligned_collected:
  "collectContextData P (Inr c10) clock_aligned
     = Inr (snapshot_aligned, generateContextHash P (context_json snapshot_aligned),
            computeConsistencyScore snapshot_aligned)"
  by (simp add: collectContextData_Inr c10_def clock_aligned_def snapshot_aligned_def)

text \<open>
  Claim C5. For every snapshot the consistency score lies in the closed interval from 0
  to 1 and is the unweighted arithmetic mean of the four sub-scores.
\<close>

theorem score_bounds:
  "0 \<le> computeConsistencyScore contextData \<and> computeConsistencyScore contextData \<le> 1 \<and>
   computeConsistencyScore contextData =
     (evaluateLocationConsistency (location contextData)
      + evaluateTemporalConsistency contextData
      + evaluateMotionConsistency (motion_signature contextData)
      + evaluateNetworkConsistency (wifi_fingerprint contextData)) / 4"
proof -
  have l: "evaluateLocationConsistency (location contextData) = 1 / 2 \<or>
           evaluateLocationConsistency (location contextData) = 1"
    by (simp add: evaluateLocationConsistency_def)
  have t: "evaluateTemporalConsistency contextData = 1 / 2 \<or>
           evaluateTemporalConsistency contextData = 1"
    by (simp add: evaluateTemporalConsistency_def Let_def)
  from l t show ?thesis
    by (auto simp add: score_mean evaluateMotionConsistency_def evaluateNetworkConsistency_def)
qed

text \<open>
  Claim C4 says that a snapshot with a location accuracy of at most 20 and all timestamps
  within 5000 ms of each other has the four sub-scores 1 and the score 1. The collector
  run at an accuracy of 10 with all four clock readings equal gives the snapshot
  \<open>snapshot_aligned\<close>, whose temporal sub-score is 1/2 and whose score is 7/8: the
  location object has no timestamp for the temporal evaluator to read.
\<close>

theorem aligned_snapshot_score:
  "collectContextData P (Inr c10) clock_aligned
     = Inr (snapshot_aligned, generateContextHash P (context_json snapshot_aligned), 7 / 8) \<and>
   accuracy (location snapshot_aligned) = 10 \<and>
   evaluateLocationConsistency (location snapshot_aligned) = 1 \<and>
   evaluateTemporalConsistency snapshot_aligned = 1 / 2 \<and>
   evaluateMotionConsistency (motion_signature snapshot_aligned) = 1 \<and>
   evaluateNetworkConsistency (wifi_fingerprint snapshot_aligned) = 1"
proof -
  have t: "evaluateTemporalConsistency snapshot_aligned = 1 / 2"
    by (rule temporal_no_location_timestamp) (simp add: snapshot_aligned_def)
  have l: "evaluateLocationConsistency (location snapshot_aligned) = 1"
    by (simp add: evaluateLocationConsistency_def snapshot_aligned_def)
  have m: "evaluateMotionConsistency (motion_signature snapshot_aligned) = 1"
    by (simp add: evaluateMotionConsistency_def)
  have n: "evaluateNetworkConsistency (wifi_fingerprint snapshot_aligned) = 1"
    by (simp add: evaluateNetworkConsistency_def)
  have s: "computeConsistencyScore snapshot_aligned = 7 / 8"
    by (simp add: score_mean t l m n)
  have a: "accuracy (location snapshot_aligned) = 10"
    by (simp add: snapshot_aligned_def)
  from t l m n a show ?thesis
    by (simp add: snapshot_aligned_collected s)
qed

text \<open>
  Claim C9. For every snapshot the collector produces, the motion and network sub-scores
  are 1, the temporal sub-score is 1/2, the location sub-score is 1/2 or 1, and so the
  score is 3/4 or 7/8, which is never below the threshold of 7/10.
\<close>

theorem collected_score:
  assumes "collectContextData P position clk = Inr (contextData, contextHash, score)"
  shows "evaluateMotionConsistency (motion_signature contextData) = 1 \<and>
         evaluateNetworkConsistency (wifi_fingerprint contextData) = 1 \<and>
         evaluateTemporalConsistency contextData = 1 / 2 \<and>
         (evaluateLocationConsistency (location contextData) = 1 / 2 \<or>
          evaluateLocationConsistency (location contextData) = 1) \<and>
         score = computeConsistencyScore contextData \<and>
         (score = 3 / 4 \<or> score = 7 / 8) \<and>
         consistencyThreshold \<le> score"
proof -
  have t: "evaluateTemporalConsistency contextData = 1 / 2"
    using collected_snapshot(1)[OF assms] by (rule temporal_no_location_timestamp)
  have s: "score = computeConsistencyScore contextData"
    using collected_snapshot(2)[OF assms] .
  have l: "evaluateLocationConsistency (location contextData) = 1 / 2 \<or>
           evaluateLocationConsistency (location contextData) = 1"
    by (simp add: evaluateLocationConsistency_def)
  have m: "evaluateMotionConsistency (motion_signature contextData) = 1"
    by (simp add: evaluateMotionConsistency_def)
  have n: "evaluateNetworkConsistency (wifi_fingerprint contextData) = 1"
    by (simp add: evaluateNetworkConsistency_def)
  have v: "score = 3 / 4 \<or> score = 7 / 8"
    using l by (auto simp add: s score_mean t m n)
  then have "consistencyThreshold \<le> score"
    by (auto simp add: consistencyThreshold_def)
  with t l m n v s show ?thesis by simp
qed

theorem collected_score_witness:
  "collectContextData example_platform (Inr c10) clk0
     = Inr (snapshot0, generateContextHash example_platform (context_json snapshot0),
            computeConsistencyScore snapshot0) \<and>
   evaluateTemporalConsistency snapshot0 = 1 / 2 \<and>
   evaluateLocationConsistency (location snapshot0) = 1 \<and>
   computeConsistencyScore snapshot0 = 7 / 8 \<and>
   consistencyThreshold \<le> computeConsistencyScore snapshot0"
proof -
  have l: "evaluateLocationConsistency (location snapshot0) = 1"
    by (simp add: evaluateLocationConsistency_def snapshot0_def)
  from collected_score[OF snapshot0_collected[of example_platform]] l
  have "computeConsistencyScore snapshot0 = 7 / 8"
    by (simp add: score_mean)
  with collected_score[OF snapshot0_collected[of example_platform]] l show ?thesis
    by (simp add: snapshot0_collected)
qed

section \<open>Properties of token issuance\<close>

lemma unrelated_unsupported: "getApiEndpoint example_platform unrelated_url = Inr None"
  by (simp add: getApiEndpoint_def example_platform_def example_hostname_def
      API_ENDPOINTS_def unrelated_url_def)

text \<open>
  Claim C10. While no device key pair is initialised, every token request fails with the
  error \<^verbatim>\<open>Device key pair not initialized\<close>, whatever the site; the response to
  \<^verbatim>\<open>VERIFY_CONTEXT\<close> is then a failure (with that message once the collection has
  succeeded), also for an unsupported site, and a success response is only ever sent
  when a key pair exists.
\<close>

theorem missing_key_pair:
  "requestZKPToken P None contextHash score siteUrl
     = Inl (Error ''Device key pair not initialized'') \<and>
   onVerifyContext P None position clk siteUrl
     = Failure (case position of
                  Inl e \<Rightarrow> message e
                | Inr c \<Rightarrow> ''Device key pair not initialized'') \<and>
   (onVerifyContext P deviceKeyPair position clk siteUrl = Success tok
      \<longrightarrow> deviceKeyPair \<noteq> None)"
proof -
  have a: "\<And>h s. requestZKPToken P None h s siteUrl
             = Inl (Error ''Device key pair not initialized'')"
    by (simp add: requestZKPToken_def)
  have b: "onVerifyContext P None position clk siteUrl
     = Failure (case position of
                  Inl e \<Rightarrow> message e
                | Inr c \<Rightarrow> ''Device key pair not initialized'')"
    by (cases position)
       (simp_all add: onVerifyContext_def collectContextData_Inl collectContextData_Inr a)
  have c: "onVerifyContext P deviceKeyPair position clk siteUrl = Success tok
             \<longrightarrow> deviceKeyPair \<noteq> None"
    using b by (cases deviceKeyPair) auto
  from a b c show ?thesis by blast
qed

theorem missing_key_pair_witness:
  "onVerifyContext example_platform (Some kp0) (Inr c10) clk0 unrelated_url
     = Success \<lparr>token = None, consistencyScore = 0\<rparr> \<and>
   Some kp0 \<noteq> None \<and>
   requestZKPToken example_platform None [] 0 unrelated_url
     = Inl (Error ''Device key pair not initialized'') \<and>
   onVerifyContext example_platform None (Inr c10) clk0 unrelated_url
     = Failure ''Device key pair not initialized''"
  using missing_key_pair[of example_platform "[]" 0 unrelated_url "Inr c10" clk0
          "Some kp0" "\<lparr>token = None, consistencyScore = 0\<rparr>"]
  by (simp add: unrelated_unsupported requestZKPToken_def onVerifyContext_def
      collectContextData_Inr)

text \<open>
  Claim C1, as amended. For a site URL that matches no entry of the endpoint table and an
  initialised device key pair, \<open>requestZKPToken\<close> raises the error
  \<^verbatim>\<open>Unsupported shopping site\<close>, and the \<^verbatim>\<open>VERIFY_CONTEXT\<close> listener, once the
  context has been collected, answers with the success response that carries the token
  \<^verbatim>\<open>{token: null, consistencyScore: 0}\<close>.
\<close>

theorem unsupported_site:
  assumes "getApiEndpoint P siteUrl = Inr None"
  shows "requestZKPToken P (Some kp) contextHash score siteUrl
           = Inl (Error ''Unsupported shopping site'') \<and>
         onVerifyContext P (Some kp) (Inr c) clk siteUrl
           = Success \<lparr>token = None, consistencyScore = 0\<rparr>"
proof -
  have a: "\<And>h s. requestZKPToken P (Some kp) h s siteUrl
             = Inl (Error ''Unsupported shopping site'')"
    using assms by (simp add: requestZKPToken_def)
  then show ?thesis
    by (simp add: onVerifyContext_def collectContextData_Inr)
qed

theorem unsupported_site_witness:
  "getApiEndpoint example_platform unrelated_url = Inr None \<and>
   requestZKPToken example_platform (Some kp0) [] 0 unrelated_url
     = Inl (Error ''Unsupported shopping site'') \<and>
   onVerifyContext example_platform (Some kp0) (Inr c10) clk0 unrelated_url
     = Success \<lparr>token = None, consistencyScore = 0\<rparr>"
  using unsupported_site[OF unrelated_unsupported, of kp0 "[]" 0 c10 clk0] unrelated_unsupported
  by simp

text \<open>
  Claim C1 as the specification states it does not hold: for the unsupported URL
  \<open>unrelated_url\<close> the token request raises an error, and without a device key pair
  the response to \<^verbatim>\<open>VERIFY_CONTEXT\<close> is a failure.
\<close>

theorem unsupported_site_counterexample:
  "getApiEndpoint example_platform unrelated_url = Inr None \<and>
   requestZKPToken example_platform (Some kp0) [] 0 unrelated_url
     = Inl (Error ''Unsupported shopping site'') \<and>
   onVerifyContext example_platform None (Inr c10) clk0 unrelated_url
     = Failure ''Device key pair not initialized''"
  by (simp add: unrelated_unsupported requestZKPToken_def onVerifyContext_def
      collectContextData_Inr)

section \<open>Properties of the verification loop\<close>

lemma settled_accept:
  "consistencyThreshold \<le> consistencyScore tok \<Longrightarrow>
   verifyContext_settled (Answered (Success tok)) st =
     st\<lparr>activeToken := Some tok, secureContextToken := Some tok,
        dispatched := dispatched st @ [TokenUpdated tok (consistencyScore tok),
                                       StatusChanged ''active'' (consistencyScore tok)]\<rparr>"
  by (simp add: verifyContext_settled_def injectTokenToPage_def notifyPageContextStatus_def)

lemma settled_reject:
  "\<not> consistencyThreshold \<le> consistencyScore tok \<Longrightarrow>
   verifyContext_settled (Answered (Success tok)) st =
     handleVerificationFailure (Some (consistencyScore tok)) st"
  by (simp add: verifyContext_settled_def)

lemma settled_failure:
  "verifyContext_settled (Answered (Failure err)) st = handleVerificationFailure None st"
  "verifyContext_settled (Rejected e) st = handleVerificationFailure None st"
  by (simp_all add: verifyContext_settled_def)

lemma failure_state:
  "handleVerificationFailure score st =
     st\<lparr>activeToken := None, secureContextToken := None,
        dispatched := dispatched st @
          [VerificationFailed
             (if (case score of None \<Rightarrow> 0 | Some s \<Rightarrow> s) \<noteq> 0
              then ''Insufficient consistency score'' else ''Verification error'')
             (case score of None \<Rightarrow> 0 | Some s \<Rightarrow> s)]\<rparr>"
  by (simp add: handleVerificationFailure_def Let_def)

text \<open>
  Claim C3. When a verification response arrives, its token becomes the active token and
  the \<^verbatim>\<open>active\<close> status is dispatched if and only if the consistency score of the token is
  at least 7/10; otherwise, and for a failure response or a rejected request, no token
  is active. A score of exactly 0.7 is accepted and a score of 0.699 is rejected.
\<close>

theorem threshold_gating:
  "(activeToken (verifyContext_settled (Answered (Success tok)) st) = Some tok \<and>
    dispatched (verifyContext_settled (Answered (Success tok)) st) =
      dispatched st @ [TokenUpdated tok (consistencyScore tok),
                       StatusChanged ''active'' (consistencyScore tok)])
     = (7 / 10 \<le> consistencyScore tok) \<and>
   (activeToken (verifyContext_settled (Answered (Success tok)) st) = None)
     = (consistencyScore tok < 7 / 10) \<and>
   activeToken (verifyContext_settled (Answered (Failure err)) st) = None \<and>
   activeToken (verifyContext_settled (Rejected e) st) = None \<and>
   activeToken (verifyContext_settled
       (Answered (Success \<lparr>token = t, consistencyScore = 7 / 10\<rparr>)) st)
     = Some \<lparr>token = t, consistencyScore = 7 / 10\<rparr> \<and>
   activeToken (verifyContext_settled
       (Answered (Success \<lparr>token = t, consistencyScore = 699 / 1000\<rparr>)) st)
     = None"
proof (cases "consistencyThreshold \<le> consistencyScore tok")
  case True
  then show ?thesis
    using settled_accept[OF True, of st]
    by (simp add: settled_failure failure_state verifyContext_settled_def
        injectTokenToPage_def notifyPageContextStatus_def consistencyThreshold_def)
next
  case False
  then show ?thesis
    using settled_reject[OF False, of st]
    by (simp add: settled_failure failure_state verifyContext_settled_def
        injectTokenToPage_def notifyPageContextStatus_def consistencyThreshold_def)
qed

text \<open>
  A score that is below the threshold and not zero is reported with the reason
  \<^verbatim>\<open>Insufficient consistency score\<close>.
\<close>

lemma insufficient_score_reason:
  "consistencyScore tok < 7 / 10 \<Longrightarrow> consistencyScore tok \<noteq> 0 \<Longrightarrow>
   dispatched (verifyContext_settled (Answered (Success tok)) st)
     = dispatched st @
         [VerificationFailed ''Insufficient consistency score'' (consistencyScore tok)]"
  by (simp add: failure_state verifyContext_settled_def consistencyThreshold_def)

text \<open>
  Claim C7 says that a failure caused by an insufficient score is reported with a reason
  other than the one reported when the request could not be completed. A success
  response whose token has the score 0, which is what the background worker answers for
  an unsupported site, is reported with the reason \<^verbatim>\<open>Verification error\<close>, the same reason
  as a failure response and as a rejected request.
\<close>

theorem zero_score_reason:
  "dispatched (verifyContext_settled
      (Answered (Success \<lparr>token = None, consistencyScore = 0\<rparr>)) st)
     = dispatched st @ [VerificationFailed ''Verification error'' 0] \<and>
   dispatched (verifyContext_settled (Answered (Failure err)) st)
     = dispatched st @ [VerificationFailed ''Verification error'' 0] \<and>
   dispatched (verifyContext_settled (Rejected e) st)
     = dispatched st @ [VerificationFailed ''Verification error'' 0]"
  by (simp add: settled_failure failure_state verifyContext_settled_def consistencyThreshold_def)

subsection \<open>Stopping the loop\<close>

lemma timer_invariant_initial: "timer_invariant initial_state"
  by (simp add: timer_invariant_def initial_state_def)

lemma timer_invariant_settled:
  "timer_invariant st \<Longrightarrow> timer_invariant (verifyContext_settled out st)"
  by (cases out rule: outcome.exhaust)
     (auto simp add: timer_invariant_def verifyContext_settled_def injectTokenToPage_def
        notifyPageContextStatus_def handleVerificationFailure_def Let_def
        split: response.splits)

lemma timer_invariant_start:
  "timer_invariant st \<Longrightarrow> timer_invariant (startContextVerification st)"
  by (auto simp add: timer_invariant_def startContextVerification_def clearInterval_def
        verifyContext_def Let_def split: option.splits)

lemma timer_invariant_stop:
  "timer_invariant st \<Longrightarrow> timer_invariant (stopContextVerification st)"
  by (auto simp add: timer_invariant_def stopContextVerification_def clearInterval_def
        notifyPageContextStatus_def Let_def split: option.splits)

lemma timer_invariant_step: "timer_invariant st \<Longrightarrow> timer_invariant (step st a)"
proof (cases a)
  case (NavigationChange inStore)
  assume "timer_invariant st"
  then show ?thesis
    using NavigationChange by (simp add: timer_invariant_start timer_invariant_stop)
next
  case (Tick i)
  assume "timer_invariant st"
  then show ?thesis
    using Tick by (simp add: timer_invariant_def verifyContext_def)
next
  case (Settle out)
  assume inv: "timer_invariant st"
  then have "timer_invariant (st\<lparr>pending := pending st - 1\<rparr>)"
    by (simp add: timer_invariant_def)
  then show ?thesis
    using Settle inv by (simp add: timer_invariant_settled)
qed

lemma timer_invariant_run: "timer_invariant st \<Longrightarrow> timer_invariant (run st acts)"
  unfolding run_def
  by (induction acts arbitrary: st) (simp_all add: timer_invariant_step)

text \<open>The state the script is in after loading is a state of a run.\<close>

lemma content_script_loaded_run:
  "content_script_loaded hostname href = run initial_state [] \<or>
   content_script_loaded hostname href = run initial_state [NavigationChange True]"
  by (simp add: content_script_loaded_def run_def split: option.splits)

lemma stop_state:
  assumes "timer_invariant st"
  shows "stopContextVerification st =
           st\<lparr>activeToken := None, verificationInterval := None, timers := [],
              dispatched := dispatched st @ [StatusChanged ''inactive'' 0]\<rparr>"
  using assms
  by (cases "verificationInterval st")
     (simp_all add: timer_invariant_def stopContextVerification_def clearInterval_def
        notifyPageContextStatus_def Let_def)

lemma quiescent_step:
  "timers st = [] \<Longrightarrow> pending st = 0 \<Longrightarrow> \<not> is_navigation a \<Longrightarrow> step st a = st"
  by (cases a) simp_all

lemma quiescent_run:
  "timers st = [] \<Longrightarrow> pending st = 0 \<Longrightarrow> \<forall>a\<in>set acts. \<not> is_navigation a
     \<Longrightarrow> run st acts = st"
  unfolding run_def
  by (induction acts) (simp_all add: quiescent_step)

text \<open>
  Claim C6, as amended. In every state the content script can reach, stopping cancels the
  interval timer, clears the active token and dispatches the \<^verbatim>\<open>inactive\<close> status,
  and leaves the requests in flight as they are. After the stop no timer fires, and when
  no request was in flight, nothing changes the state until the next navigation message.
  (A request that was in flight is not discarded; see the counterexample.)
\<close>

theorem stop_effect:
  assumes "st = run initial_state acts" and "st' = stopContextVerification st"
  shows "activeToken st' = None \<and> verificationInterval st' = None \<and> timers st' = [] \<and>
         dispatched st' = dispatched st @ [StatusChanged ''inactive'' 0] \<and>
         pending st' = pending st \<and>
         step st' (Tick i) = st' \<and>
         (pending st = 0 \<and> (\<forall>a\<in>set later. \<not> is_navigation a) \<longrightarrow> run st' later = st')"
proof -
  have inv: "timer_invariant st"
    unfolding assms(1) by (rule timer_invariant_run[OF timer_invariant_initial])
  have eq: "st' = st\<lparr>activeToken := None, verificationInterval := None, timers := [],
              dispatched := dispatched st @ [StatusChanged ''inactive'' 0]\<rparr>"
    unfolding assms(2) by (rule stop_state[OF inv])
  have t: "timers st' = []" and p: "pending st' = pending st"
    by (simp_all add: eq)
  have q: "pending st = 0 \<and> (\<forall>a\<in>set later. \<not> is_navigation a) \<longrightarrow> run st' later = st'"
    using quiescent_run[OF t, of later] p by simp
  have k: "step st' (Tick i) = st'"
    using t by simp
  show ?thesis
    using q k t p by (simp add: eq)
qed

lemma run_start_settle:
  "run initial_state [NavigationChange True, Settle (Answered (Success token09))]
     = \<lparr>activeToken = Some token09, verificationInterval = Some 1, timers = [1],
        nextTimer = 2, pending = 0, secureContextToken = Some token09,
        dispatched = [TokenUpdated token09 (9 / 10), StatusChanged ''active'' (9 / 10)]\<rparr>"
  by (simp add: run_def initial_state_def startContextVerification_def verifyContext_def
      verifyContext_settled_def injectTokenToPage_def notifyPageContextStatus_def
      consistencyThreshold_def token09_def Let_def)

theorem stop_effect_witness:
  "activeToken (run initial_state
      [NavigationChange True, Settle (Answered (Success token09))]) = Some token09 \<and>
   pending (run initial_state
      [NavigationChange True, Settle (Answered (Success token09))]) = 0 \<and>
   activeToken (stopContextVerification (run initial_state
      [NavigationChange True, Settle (Answered (Success token09))])) = None \<and>
   run (stopContextVerification (run initial_state
      [NavigationChange True, Settle (Answered (Success token09))]))
      [Tick 1, Settle (Answered (Success token09)), Tick 1]
    = stopContextVerification (run initial_state
      [NavigationChange True, Settle (Answered (Success token09))])"
  using stop_effect[OF refl refl,
      of "[NavigationChange True, Settle (Answered (Success token09))]" 1
         "[Tick 1, Settle (Answered (Success token09)), Tick 1]"]
  by (simp add: run_start_settle)

text \<open>
  Claim C6 as the specification states it does not hold: a request sent at the start and
  answered after the stop makes its token the active token and dispatches the
  \<^verbatim>\<open>active\<close> status after the \<^verbatim>\<open>inactive\<close> one.
\<close>

theorem stop_in_flight_counterexample:
  "activeToken (run initial_state
      [NavigationChange True, NavigationChange False, Settle (Answered (Success token09))])
     = Some token09 \<and>
   dispatched (run initial_state
      [NavigationChange True, NavigationChange False, Settle (Answered (Success token09))])
     = [StatusChanged ''inactive'' 0, TokenUpdated token09 (9 / 10),
        StatusChanged ''active'' (9 / 10)]"
  by (simp add: run_def initial_state_def startContextVerification_def verifyContext_def
      stopContextVerification_def clearInterval_def
      verifyContext_settled_def injectTokenToPage_def notifyPageContextStatus_def
      consistencyThreshold_def token09_def Let_def)

section \<open>Properties of the request interceptor\<close>

lemma getCurrentSite_supported:
  "getCurrentSite hostname = Some site \<Longrightarrow> site \<in> set SUPPORTED_SITES"
  unfolding getCurrentSite_def Let_def
  by (auto simp add: find_Some_iff)

lemma fetch_arguments_match:
  assumes "getCurrentSite hostname = Some (domain, cfg)" and "includes url (apiPattern cfg)"
  shows "fetch_arguments P hostname active (url, init) =
           (url, Some \<lparr>headers = Some (case active of
                         None \<Rightarrow> headers_of init
                       | Some tok \<Rightarrow>
                           AList.update ''X-Shopping-Site'' (Some domain)
                             (AList.update ''X-Context-Consistency-Score''
                                (Some (number_toString P (consistencyScore tok)))
                                (AList.update ''X-Secure-Context-Token'' (token tok)
                                   (headers_of init)))),
                      other_options = options_of init\<rparr>)"
  using assms
  by (cases init; cases active)
     (auto simp add: fetch_arguments_def headers_of_def options_of_def Let_def
        split: option.splits)

lemma fetch_arguments_no_match:
  "getCurrentSite hostname = None \<or>
   (\<exists>domain cfg. getCurrentSite hostname = Some (domain, cfg) \<and>
      \<not> includes url (apiPattern cfg))
   \<Longrightarrow> fetch_arguments P hostname active (url, init) = (url, init)"
  by (auto simp add: fetch_arguments_def)

lemma walmart_site:
  "getCurrentSite ''www.walmart.com'' =
     Some (''walmart.com'', \<lparr>apiPattern = ''api.walmart.com'', storePattern = ''/store/''\<rparr>)"
  by (simp add: getCurrentSite_def SUPPORTED_SITES_def Let_def)

lemma orders_url_match: "includes orders_url ''api.walmart.com''"
  by (simp add: orders_url_def)

lemma unrelated_no_pattern:
  "\<forall>site\<in>set SUPPORTED_SITES. \<not> includes unrelated_url (apiPattern (snd site))"
  by (simp add: SUPPORTED_SITES_def unrelated_url_def)

lemma decimal_09: "decimal (9 / 10) = ''0.9''"
  by code_simp

text \<open>
  Claim C8, as amended. For every call of \<open>fetch\<close> with a URL string: when the URL
  contains the API pattern of the current site and a token is active, the headers passed
  on are those of the call with exactly the token, the score and the site header set,
  and the other options are kept. When no token is active, the URL, the headers and the
  other options passed on are those of the call (the options object itself may have been
  created or given an empty \<open>headers\<close> property). A URL that contains the API
  pattern of no supported site is passed on with the arguments of the call unchanged.
\<close>

theorem fetch_attestation_headers:
  "(getCurrentSite hostname = Some (domain, cfg) \<and> includes url (apiPattern cfg) \<and>
      active = Some tok \<longrightarrow>
      fst (fetch_arguments P hostname active (url, init)) = url \<and>
      map_of (headers_of (snd (fetch_arguments P hostname active (url, init))))
        = (map_of (headers_of init))
            (''X-Secure-Context-Token'' \<mapsto> token tok,
             ''X-Context-Consistency-Score'' \<mapsto> Some (number_toString P (consistencyScore tok)),
             ''X-Shopping-Site'' \<mapsto> Some domain) \<and>
      options_of (snd (fetch_arguments P hostname active (url, init))) = options_of init) \<and>
   (active = None \<longrightarrow>
      fst (fetch_arguments P hostname active (url, init)) = url \<and>
      headers_of (snd (fetch_arguments P hostname active (url, init))) = headers_of init \<and>
      options_of (snd (fetch_arguments P hostname active (url, init))) = options_of init) \<and>
   ((\<forall>site\<in>set SUPPORTED_SITES. \<not> includes url (apiPattern (snd site))) \<longrightarrow>
      fetch_arguments P hostname active (url, init) = (url, init))"
proof (cases "getCurrentSite hostname")
  case None
  then show ?thesis
    by (simp add: fetch_arguments_no_match)
next
  case (Some site)
  obtain d c where site: "site = (d, c)" by (cases site)
  have mem: "(d, c) \<in> set SUPPORTED_SITES"
    using getCurrentSite_supported[OF Some] site by simp
  show ?thesis
  proof (cases "includes url (apiPattern c)")
    case True
    have "\<not> (\<forall>site\<in>set SUPPORTED_SITES. \<not> includes url (apiPattern (snd site)))"
      using mem True by force
    then show ?thesis
      using Some site True
      by (auto simp add: fetch_arguments_match[of hostname d c url] headers_of_def
            options_of_def update_conv')
  next
    case False
    have eq: "\<And>a. fetch_arguments P hostname a (url, init) = (url, init)"
      using Some site False by (simp add: fetch_arguments_no_match)
    show ?thesis
      using Some site False by (auto simp add: eq)
  qed
qed

theorem fetch_attestation_headers_witness:
  "map_of (headers_of (snd (fetch_arguments example_platform ''www.walmart.com''
      (Some token09) (orders_url, None))))
     = [''X-Secure-Context-Token'' \<mapsto> Some ''tok'',
        ''X-Context-Consistency-Score'' \<mapsto> Some ''0.9'',
        ''X-Shopping-Site'' \<mapsto> Some ''walmart.com''] \<and>
   headers_of (snd (fetch_arguments example_platform ''www.walmart.com'' None
      (orders_url, None))) = [] \<and>
   fetch_arguments example_platform ''www.walmart.com'' (Some token09) (unrelated_url, None)
     = (unrelated_url, None)"
proof -
  have a: "map_of (headers_of (snd (fetch_arguments example_platform ''www.walmart.com''
      (Some token09) (orders_url, None))))
     = [''X-Secure-Context-Token'' \<mapsto> Some ''tok'',
        ''X-Context-Consistency-Score'' \<mapsto> Some ''0.9'',
        ''X-Shopping-Site'' \<mapsto> Some ''walmart.com'']"
    using fetch_attestation_headers[of "''www.walmart.com''" "''walmart.com''"
        "\<lparr>apiPattern = ''api.walmart.com'', storePattern = ''/store/''\<rparr>" orders_url
        "Some token09" token09 example_platform None]
      walmart_site orders_url_match
    by (simp add: headers_of_def token09_def example_platform_def decimal_09)
  have b: "headers_of (snd (fetch_arguments example_platform ''www.walmart.com'' None
      (orders_url, None))) = []"
    using fetch_attestation_headers[of "''www.walmart.com''" "''walmart.com''"
        "\<lparr>apiPattern = ''api.walmart.com'', storePattern = ''/store/''\<rparr>" orders_url
        None token09 example_platform None]
    by (simp add: headers_of_def)
  have c: "fetch_arguments example_platform ''www.walmart.com'' (Some token09)
      (unrelated_url, None) = (unrelated_url, None)"
    using fetch_attestation_headers[of "''www.walmart.com''" "''walmart.com''"
        "\<lparr>apiPattern = ''api.walmart.com'', storePattern = ''/store/''\<rparr>"
        unrelated_url "Some token09" token09 example_platform None] unrelated_no_pattern
    by blast
  from a b c show ?thesis by blast
qed

text \<open>
  Claim C8 as the specification states it does not hold: with no active token, a call
  with a matching URL and no options object is passed on with an options object.
\<close>

theorem fetch_unmodified_counterexample:
  "fetch_arguments example_platform ''www.walmart.com'' None (orders_url, None)
     = (orders_url, Some \<lparr>headers = Some [], other_options = []\<rparr>) \<and>
   fetch_arguments example_platform ''www.walmart.com'' None (orders_url, None)
     \<noteq> (orders_url, None)"
  by (simp add: fetch_arguments_def walmart_site orders_url_match)

section \<open>Properties of the context hasher\<close>

lemma same_properties_snapshot0:
  "same_properties (context_json snapshot0) snapshot0_reordered"
  by (auto simp add: same_properties_def context_json_def snapshot0_reordered_def snapshot0_def)

lemma quote_head: "quote s = CHR 0x22 # concat (map quote_char s) @ [CHR 0x22]"
  by (simp add: quote_def)

lemma quote_char_plain:
  "quote_char CHR ''l'' = ''l''" "quote_char CHR ''t'' = ''t''"
  by (simp_all add: quote_char_def)

text \<open>
  The two objects are written differently, whatever the rendering of numbers: the first
  property written is \<open>location\<close> for the one and \<open>timestamp\<close> for the other.
\<close>

lemma stringify_snapshot0_differ:
  "JSON_stringify ns (context_json snapshot0) \<noteq> JSON_stringify ns snapshot0_reordered"
  by (simp add: context_json_def snapshot0_reordered_def quote_head quote_char_plain)

text \<open>
  On every platform the bytes digested for the two objects differ, so their hashes agree
  only if the digest maps these two byte strings to the same value.
\<close>

lemma reordered_bytes_differ:
  "encode (JSON_stringify ns (context_json snapshot0))
     \<noteq> encode (JSON_stringify ns snapshot0_reordered)"
  by (simp add: encode_def context_json_def snapshot0_reordered_def quote_head
      quote_char_plain)

lemma join_empty: "join xs [] = concat xs"
  by (induction xs "[] :: string" rule: join.induct) simp_all

lemma hex_digit_inject: "i < 16 \<Longrightarrow> j < 16 \<Longrightarrow> hex_digit i = hex_digit j \<Longrightarrow> i = j"
proof -
  assume i: "i < 16" and j: "j < 16" and eq: "hex_digit i = hex_digit j"
  have d: "distinct ''0123456789abcdef''" by simp
  have l: "length ''0123456789abcdef'' = 16" by simp
  from eq show "i = j"
    unfolding hex_digit_def using nth_eq_iff_index_eq[OF d, of i j] i j l by simp
qed

lemma hex_byte:
  "padStart (toString16 (unat (b :: byte))) 2 CHR ''0''
     = [hex_digit (unat b div 16), hex_digit (unat b mod 16)]"
proof -
  have lt: "unat b < 256" using unsigned_less[of b, where 'a = nat] by simp
  show ?thesis
  proof (cases "unat b < 16")
    case True
    then show ?thesis
      by (simp add: padStart_def toString16.simps[of "unat b"] hex_digit_def)
  next
    case False
    with lt have "unat b div 16 < 16" by simp
    with False show ?thesis
      by (simp add: padStart_def toString16.simps[of "unat b"]
          toString16.simps[of "unat b div 16"])
  qed
qed

lemma hex_byte_inject:
  assumes "padStart (toString16 (unat (a :: byte))) 2 CHR ''0''
             = padStart (toString16 (unat (b :: byte))) 2 CHR ''0''"
  shows "a = b"
proof -
  have la: "unat a < 256" using unsigned_less[of a, where 'a = nat] by simp
  have lb: "unat b < 256" using unsigned_less[of b, where 'a = nat] by simp
  from assms have "hex_digit (unat a div 16) = hex_digit (unat b div 16)"
    and "hex_digit (unat a mod 16) = hex_digit (unat b mod 16)"
    by (simp_all add: hex_byte)
  then have "unat a div 16 = unat b div 16" and "unat a mod 16 = unat b mod 16"
    using la lb by (auto intro: hex_digit_inject)
  then have "unat a = unat b"
    by (metis div_mult_mod_eq)
  then show "a = b" by (simp add: word_unat_eq_iff)
qed

text \<open>The hexadecimal writing of a digest determines the digest.\<close>

lemma hex_inject: "hex xs = hex ys \<Longrightarrow> xs = ys"
proof (induction xs arbitrary: ys)
  case Nil
  then show ?case
    by (cases ys) (simp_all add: hex_def join_empty hex_byte)
next
  case (Cons x xs)
  then obtain y ys' where ys: "ys = y # ys'"
    by (cases ys) (simp_all add: hex_def join_empty hex_byte)
  from Cons.prems
  have h: "padStart (toString16 (unat x)) 2 CHR ''0'' = padStart (toString16 (unat y)) 2 CHR ''0''"
    and t: "hex xs = hex ys'"
    unfolding ys by (simp_all add: hex_def join_empty hex_byte)
  from hex_byte_inject[OF h] Cons.IH[OF t] show ?case
    by (simp add: ys)
qed

lemma hash_eq_iff:
  "(generateContextHash P x = generateContextHash P y)
     = (sha256 P (encode (JSON_stringify (number_toString P) x))
        = sha256 P (encode (JSON_stringify (number_toString P) y)))"
  by (auto simp add: generateContextHash_def Let_def dest: hex_inject)

lemma reordered_hash_collision:
  "generateContextHash P (context_json snapshot0) = generateContextHash P snapshot0_reordered
   \<Longrightarrow> sha256 P (encode (JSON_stringify (number_toString P) (context_json snapshot0)))
         = sha256 P (encode (JSON_stringify (number_toString P) snapshot0_reordered))"
  by (simp add: hash_eq_iff)

text \<open>
  Claim C2, as amended. Two snapshots built by the collector with identical field values
  have identical context hashes. The hash is taken of the serialisation of the object in
  the insertion order of its properties, with no reordering: two objects have the same
  hash exactly when the digests of their serialisations agree.
\<close>

theorem context_hash_deterministic:
  fixes a b :: context_data
  assumes "location a = location b" and "wifi_fingerprint a = wifi_fingerprint b"
    and "motion_signature a = motion_signature b" and "pos_terminal a = pos_terminal b"
    and "timestamp a = timestamp b"
  shows "generateContextHash P (context_json a) = generateContextHash P (context_json b) \<and>
         (generateContextHash P x = generateContextHash P y)
           = (sha256 P (encode (JSON_stringify (number_toString P) x))
              = sha256 P (encode (JSON_stringify (number_toString P) y)))"
proof -
  have "a = b" using assms by (cases a, cases b) simp
  then show ?thesis using hash_eq_iff[of P x y] by simp
qed

theorem context_hash_deterministic_witness:
  "generateContextHash example_platform (context_json snapshot0)
     = generateContextHash example_platform
         (context_json (snapshot_aligned\<lparr>pos_terminal := getPOSTerminalBeacon 1001,
                                          timestamp := 1002\<rparr>))"
  using context_hash_deterministic[of snapshot0
      "snapshot_aligned\<lparr>pos_terminal := getPOSTerminalBeacon 1001, timestamp := 1002\<rparr>"
      example_platform]
  by (simp add: snapshot0_def snapshot_aligned_def)

text \<open>
  Claim C2 as the specification states it does not hold: \<open>snapshot0_reordered\<close> has
  the properties of the snapshot \<open>snapshot0\<close> in another insertion order, the bytes
  that are digested differ, and so do the hashes on the example platform.
\<close>

theorem context_hash_order_counterexample:
  "same_properties (context_json snapshot0) snapshot0_reordered \<and>
   encode (JSON_stringify (number_toString example_platform) (context_json snapshot0))
     \<noteq> encode (JSON_stringify (number_toString example_platform) snapshot0_reordered) \<and>
   generateContextHash example_platform (context_json snapshot0)
     \<noteq> generateContextHash example_platform snapshot0_reordered"
proof -
  have e: "encode (JSON_stringify (number_toString example_platform) (context_json snapshot0))
     \<noteq> encode (JSON_stringify (number_toString example_platform) snapshot0_reordered)"
    by (rule reordered_bytes_differ)
  then have "generateContextHash example_platform (context_json snapshot0)
     \<noteq> generateContextHash example_platform snapshot0_reordered"
    by (simp add: hash_eq_iff) (simp add: example_platform_def)
  with e same_properties_snapshot0 show ?thesis by simp
qed

end
